theory Spec2Isabelle
  imports Complex_Main "HOL-Library.AList"
begin

section \<open>JavaScript values\<close>

text \<open>
  The three services exchange JSON documents. A value is what \<^verbatim>\<open>JSON.parse\<close> can
  return, extended by \<^verbatim>\<open>undefined\<close> (the result of reading a property that is not
  there, and the value of an absent request body) and by the two Firestore objects the
  code creates: the sentinel returned by \<^verbatim>\<open>FieldValue.serverTimestamp()\<close> and a
  \<^verbatim>\<open>GeoPoint\<close>. A number is the rational it denotes; a string is its list of code
  units; an object is the list of its own properties in insertion order.
\<close>

datatype jsval =
    JUndefined
  | JNull
  | JBool bool
  | JNum rat
  | JStr string
  | JArr "jsval list"
  | JObj "(string \<times> jsval) list"
  | ServerTimestamp
  | GeoPoint rat rat

datatype error = TypeError string | Error string

text \<open>Truthiness, as \<^verbatim>\<open>!x\<close>, \<^verbatim>\<open>x || y\<close> and \<^verbatim>\<open>x && y\<close> test it.\<close>

fun truthy :: "jsval \<Rightarrow> bool" where
  "truthy JUndefined = False"
| "truthy JNull = False"
| "truthy (JBool b) = b"
| "truthy (JNum n) = (n \<noteq> 0)"
| "truthy (JStr s) = (s \<noteq> [])"
| "truthy (JArr xs) = True"
| "truthy (JObj kvs) = True"
| "truthy ServerTimestamp = True"
| "truthy (GeoPoint la lo) = True"

definition js_or :: "jsval \<Rightarrow> jsval \<Rightarrow> jsval" where
  "js_or a b = (if truthy a then a else b)"

fun nullish :: "jsval \<Rightarrow> bool" where
  "nullish JUndefined = True"
| "nullish JNull = True"
| "nullish v = False"

fun is_number :: "jsval \<Rightarrow> bool" where
  "is_number (JNum n) = True"
| "is_number v = False"

text \<open>
  \<^verbatim>\<open>v.k\<close> for the property names this program reads (\<^verbatim>\<open>message\<close>, \<^verbatim>\<open>data\<close>,
  \<^verbatim>\<open>description\<close>, \<^verbatim>\<open>location\<close>, \<^verbatim>\<open>reportedBy\<close>, \<^verbatim>\<open>type\<close>,
  \<^verbatim>\<open>predictedImpact\<close>, \<^verbatim>\<open>latitude\<close>, \<^verbatim>\<open>longitude\<close>): none of them is an
  array index, \<^verbatim>\<open>length\<close> or a member of a built-in prototype, so on an array or a
  primitive the read gives \<^verbatim>\<open>undefined\<close>. On \<^verbatim>\<open>null\<close> and \<^verbatim>\<open>undefined\<close> the
  read raises a TypeError; the handlers below test \<open>nullish\<close> wherever the source
  reads a property of a value it has not tested.
\<close>

fun get_prop :: "jsval \<Rightarrow> string \<Rightarrow> jsval" where
  "get_prop (JObj kvs) k = (case map_of kvs k of Some v \<Rightarrow> v | None \<Rightarrow> JUndefined)"
| "get_prop v k = JUndefined"

text \<open>\<^verbatim>\<open>v.k = x\<close> on an object; the program assigns to objects only.\<close>

fun set_prop :: "jsval \<Rightarrow> string \<Rightarrow> jsval \<Rightarrow> jsval" where
  "set_prop (JObj kvs) k x = JObj (AList.update k x kvs)"
| "set_prop v k x = v"

text \<open>Decimal index keys of array elements and string code units.\<close>

fun decimal :: "nat \<Rightarrow> string" where
  "decimal n =
     (if n < 10 then [''0123456789'' ! n]
      else decimal (n div 10) @ [''0123456789'' ! (n mod 10)])"

declare decimal.simps [simp del]

fun indexed :: "nat \<Rightarrow> jsval list \<Rightarrow> (string \<times> jsval) list" where
  "indexed i [] = []"
| "indexed i (x # xs) = (decimal i, x) # indexed (Suc i) xs"

text \<open>
  The own enumerable properties that \<^verbatim>\<open>{...v}\<close> and a rest pattern copy: the
  properties of an object, the elements of an array, the code units of a string, and
  nothing for any other value.
\<close>

fun spread :: "jsval \<Rightarrow> (string \<times> jsval) list" where
  "spread (JObj kvs) = kvs"
| "spread (JArr xs) = indexed 0 xs"
| "spread (JStr s) = indexed 0 (map (\<lambda>c. JStr [c]) s)"
| "spread v = []"

text \<open>
  An object literal \<^verbatim>\<open>{...base, k1: v1, ..., kn: vn}\<close>: each property is set in
  turn, overwriting a property of that name where it stands and appending it otherwise.
\<close>

definition object_literal ::
  "(string \<times> jsval) list \<Rightarrow> (string \<times> jsval) list \<Rightarrow> (string \<times> jsval) list" where
  "object_literal base props = foldl (\<lambda>al (k, v). AList.update k v al) base props"

text \<open>\<^verbatim>\<open>s.substring(a, b)\<close> for non-negative integers \<open>a\<close> and \<open>b\<close>.\<close>

definition substring :: "string \<Rightarrow> nat \<Rightarrow> nat \<Rightarrow> string" where
  "substring s a b =
     (let a' = min a (length s); b' = min b (length s);
          lo = min a' b'; hi = max a' b'
      in take (hi - lo) (drop lo s))"

section \<open>The services the handlers call\<close>

text \<open>
  The handlers call into the Node runtime, Firestore and Pub/Sub. These are
  parameters of the model:
  \<^item> \<open>decode d\<close> is \<^verbatim>\<open>JSON.parse(Buffer.from(d, 'base64').toString('utf8'))\<close>,
    \<open>None\<close> when either call raises;
  \<^item> \<open>geoPoint_valid la lo\<close> tells whether \<^verbatim>\<open>new GeoPoint(la, lo)\<close> accepts
    the coordinates (the constructor raises otherwise);
  \<^item> \<open>firestore_add c doc\<close> is \<^verbatim>\<open>db.collection(c).add(doc)\<close>: the identifier of
    the new document, or the message of the error it rejects with;
  \<^item> \<open>pubsub_publish t payload\<close> is \<^verbatim>\<open>pubsub.topic(t).publishMessage\<close> on the
    serialised payload: the message identifier, or the message of the error;
  \<^item> \<open>now\<close> is \<^verbatim>\<open>new Date().toISOString()\<close>.
\<close>

record runtime =
  decode :: "jsval \<Rightarrow> jsval option"
  geoPoint_valid :: "rat \<Rightarrow> rat \<Rightarrow> bool"
  firestore_add :: "string \<Rightarrow> jsval \<Rightarrow> string + string"
  pubsub_publish :: "string \<Rightarrow> jsval \<Rightarrow> string + string"
  now :: string

text \<open>The calls a handler made to the store and the queue, with their results.\<close>

datatype call =
    FirestoreAdd string jsval "string + string"
  | PubSubPublish string jsval "string + string"

text \<open>The documents written and the messages queued by a sequence of calls.\<close>

fun written :: "call list \<Rightarrow> (string \<times> string \<times> jsval) list" where
  "written [] = []"
| "written (FirestoreAdd c doc (Inr docId) # cs) = (c, docId, doc) # written cs"
| "written (x # cs) = written cs"

fun queued :: "call list \<Rightarrow> (string \<times> string \<times> jsval) list" where
  "queued [] = []"
| "queued (PubSubPublish t payload (Inr messageId) # cs) = (t, messageId, payload) # queued cs"
| "queued (x # cs) = queued cs"

text \<open>
  A handler either sends a response (status and body) or raises outside every
  \<^verbatim>\<open>try\<close>, in which case no response is sent.
\<close>

datatype outcome = Responded nat jsval | Unhandled error

definition new_GeoPoint :: "runtime \<Rightarrow> rat \<Rightarrow> rat \<Rightarrow> error + jsval" where
  "new_GeoPoint rt la lo =
     (if geoPoint_valid rt la lo then Inr (GeoPoint la lo)
      else Inl (Error ''Value for argument is not a valid coordinate''))"

section \<open>Ingestor\<close>

text \<open>
  The handler of \<^verbatim>\<open>POST /ingest\<close> (the file with \<^verbatim>\<open>TOPIC_NAME\<close>): the result is
  the response and the calls made, in order. Both calls are inside the \<^verbatim>\<open>try\<close>, so
  a rejected call ends the run with the 500 response.
\<close>

definition TOPIC_NAME :: string where
  "TOPIC_NAME = ''raw-user-reports''"

definition ingest :: "runtime \<Rightarrow> jsval \<Rightarrow> outcome \<times> call list" where
  "ingest rt body =
     (let incidentData = body in
      if \<not> truthy incidentData \<or> \<not> truthy (get_prop incidentData ''description'')
         \<or> \<not> truthy (get_prop incidentData ''location'')
         \<or> \<not> truthy (get_prop incidentData ''reportedBy'')
      then (Responded 400 (JObj [(''error'',
              JStr ''Bad Request: Missing required incident data (description, location, or reportedBy).'')]),
            [])
      else
        let incidentData = set_prop incidentData ''ingestedAt'' ServerTimestamp;
            incidentData = set_prop incidentData ''status'' (JStr ''raw_ingested'');
            added = firestore_add rt ''rawReports'' incidentData
        in case added of
             Inl message \<Rightarrow>
               (Responded 500 (JObj [(''error'',
                  JStr (''Internal Server Error: Failed to ingest incident. Details: '' @ message))]),
                [FirestoreAdd ''rawReports'' incidentData added])
           | Inr firestoreDocId \<Rightarrow>
               let dataToPublish =
                     JObj (object_literal (spread incidentData)
                             [(''firestoreDocId'', JStr firestoreDocId)]);
                   published = pubsub_publish rt TOPIC_NAME dataToPublish
               in case published of
                    Inl message \<Rightarrow>
                      (Responded 500 (JObj [(''error'',
                         JStr (''Internal Server Error: Failed to ingest incident. Details: '' @ message))]),
                       [FirestoreAdd ''rawReports'' incidentData added,
                        PubSubPublish TOPIC_NAME dataToPublish published])
                  | Inr messageId \<Rightarrow>
                      (Responded 200 (JObj
                         [(''message'', JStr ''Incident received, stored, and queued for processing.''),
                          (''messageId'', JStr messageId),
                          (''firestoreDocId'', JStr firestoreDocId),
                          (''receivedTimestamp'', JStr (now rt))]),
                       [FirestoreAdd ''rawReports'' incidentData added,
                        PubSubPublish TOPIC_NAME dataToPublish published]))"

section \<open>Processor\<close>

text \<open>
  The handler of \<^verbatim>\<open>POST /\<close> in \<^verbatim>\<open>User_Report_Processing_Function/index.js\<close>.
  The object literal \<^verbatim>\<open>processedIncident\<close> is built outside every \<^verbatim>\<open>try\<close>: reading
  \<^verbatim>\<open>incidentData.type\<close> of \<^verbatim>\<open>null\<close> raises, and so does calling
  \<^verbatim>\<open>substring\<close> on a truthy description that is not a string.
\<close>

definition PROCESSED_EVENTS_TOPIC :: string where
  "PROCESSED_EVENTS_TOPIC = ''processed-events''"

definition summary_of :: "jsval \<Rightarrow> error + jsval" where
  "summary_of incidentData =
     (let description = get_prop incidentData ''description'' in
      if truthy description then
        (case description of
           JStr s \<Rightarrow> Inr (JStr (''Incident: '' @ substring s 0 (min (length s) 100) @ ''...''))
         | _ \<Rightarrow> Inl (TypeError ''incidentData.description.substring is not a function''))
      else Inr (JStr ''Incident reported.''))"

definition default_predictedImpact :: jsval where
  "default_predictedImpact =
     JObj [(''duration'', JStr ''unknown''), (''affectedCommuters'', JNum 0),
           (''spreadDirection'', JStr ''N/A'')]"

definition process_incident :: "jsval \<Rightarrow> error + jsval" where
  "process_incident incidentData =
     (if nullish incidentData
      then Inl (TypeError ''Cannot read properties of null or undefined'')
      else case summary_of incidentData of
             Inl e \<Rightarrow> Inl e
           | Inr summary \<Rightarrow>
               Inr (JObj (object_literal (spread incidentData)
                 [(''status'', JStr ''processed''),
                  (''processedTimestamp'', ServerTimestamp),
                  (''eventType'', js_or (get_prop incidentData ''type'') (JStr ''general_incident'')),
                  (''summary'', summary),
                  (''predictedImpact'',
                     js_or (get_prop incidentData ''predictedImpact'') default_predictedImpact),
                  (''agentResponsible'', JStr ''User Report Processing (Cloud Run Placeholder)'')])))"

definition processor :: "runtime \<Rightarrow> jsval \<Rightarrow> outcome \<times> call list" where
  "processor rt body =
     (if \<not> truthy body \<or> \<not> truthy (get_prop body ''message'')
         \<or> \<not> truthy (get_prop (get_prop body ''message'') ''data'')
      then (Responded 400 (JStr ''Bad Request: Invalid Pub/Sub message format.''), [])
      else case decode rt (get_prop (get_prop body ''message'') ''data'') of
             None \<Rightarrow>
               (Responded 400 (JStr ''Bad Request: Could not decode or parse message data.''), [])
           | Some incidentData \<Rightarrow>
               (case process_incident incidentData of
                  Inl e \<Rightarrow> (Unhandled e, [])
                | Inr processedIncident \<Rightarrow>
                    let published = pubsub_publish rt PROCESSED_EVENTS_TOPIC processedIncident
                    in case published of
                         Inr messageId \<Rightarrow>
                           (Responded 200 (JStr ''Message processed and published.''),
                            [PubSubPublish PROCESSED_EVENTS_TOPIC processedIncident published])
                       | Inl message \<Rightarrow>
                           (Responded 500
                              (JStr ''Internal Server Error: Failed to publish processed message.''),
                            [PubSubPublish PROCESSED_EVENTS_TOPIC processedIncident published])))"

section \<open>Writer\<close>

text \<open>
  The handler of \<^verbatim>\<open>POST /\<close> of the Firestore event writer. The destructuring of
  \<^verbatim>\<open>eventData\<close> and the construction of the \<^verbatim>\<open>GeoPoint\<close> are outside every
  \<^verbatim>\<open>try\<close>; \<open>firestore_location\<close> is the value of \<^verbatim>\<open>firestoreLocation\<close> after the
  \<^verbatim>\<open>if\<close>, or the error the constructor raised.
\<close>

definition firestore_location :: "runtime \<Rightarrow> jsval \<Rightarrow> error + jsval" where
  "firestore_location rt location =
     (if truthy location \<and> is_number (get_prop location ''latitude'')
         \<and> is_number (get_prop location ''longitude'')
      then (case (get_prop location ''latitude'', get_prop location ''longitude'') of
              (JNum la, JNum lo) \<Rightarrow> new_GeoPoint rt la lo
            | _ \<Rightarrow> Inr JNull)
      else Inr JNull)"

definition writer :: "runtime \<Rightarrow> jsval \<Rightarrow> outcome \<times> call list" where
  "writer rt body =
     (if \<not> truthy body \<or> \<not> truthy (get_prop body ''message'')
         \<or> \<not> truthy (get_prop (get_prop body ''message'') ''data'')
      then (Responded 400 (JStr ''Bad Request: Invalid Pub/Sub message format.''), [])
      else case decode rt (get_prop (get_prop body ''message'') ''data'') of
             None \<Rightarrow>
               (Responded 400 (JStr ''Bad Request: Could not decode or parse message data.''), [])
           | Some eventData \<Rightarrow>
               if nullish eventData
               then (Unhandled (TypeError ''Cannot destructure null or undefined''), [])
               else
                 let location = get_prop eventData ''location'';
                     restOfData = AList.delete ''location'' (spread eventData)
                 in case firestore_location rt location of
                      Inl e \<Rightarrow> (Unhandled e, [])
                    | Inr firestoreLocation \<Rightarrow>
                        let dataToSave =
                              JObj (object_literal restOfData
                                [(''location'', js_or firestoreLocation (js_or location JNull)),
                                 (''firestoreCreatedAt'', ServerTimestamp)]);
                            added = firestore_add rt ''events'' dataToSave
                        in case added of
                             Inr docId \<Rightarrow>
                               (Responded 200 (JStr ''Event written to Firestore.''),
                                [FirestoreAdd ''events'' dataToSave added])
                           | Inl message \<Rightarrow>
                               (Responded 500
                                  (JStr ''Internal Server Error: Failed to write event to Firestore.''),
                                [FirestoreAdd ''events'' dataToSave added]))"

section \<open>Listening port\<close>

text \<open>
  \<^verbatim>\<open>process.env\<close> maps a variable name to its string value; reading a variable that
  is not set gives \<^verbatim>\<open>undefined\<close>. Each service computes its port with the same
  expression and passes it to \<^verbatim>\<open>app.listen\<close>.
\<close>

definition env_read :: "(string \<rightharpoonup> string) \<Rightarrow> string \<Rightarrow> jsval" where
  "env_read penv name = (case penv name of None \<Rightarrow> JUndefined | Some s \<Rightarrow> JStr s)"

definition ingestor_port :: "(string \<rightharpoonup> string) \<Rightarrow> jsval" where
  "ingestor_port penv = js_or (env_read penv ''PORT'') (JNum 8080)"

definition processor_port :: "(string \<rightharpoonup> string) \<Rightarrow> jsval" where
  "processor_port penv = js_or (env_read penv ''PORT'') (JNum 8080)"

definition writer_port :: "(string \<rightharpoonup> string) \<Rightarrow> jsval" where
  "writer_port penv = js_or (env_read penv ''PORT'') (JNum 8080)"

section \<open>Reading results\<close>

text \<open>The property \<open>k\<close> of the record a computation produced (undefined when it raised).\<close>

definition output_field :: "error + jsval \<Rightarrow> string \<Rightarrow> jsval" where
  "output_field r k = (case r of Inr out \<Rightarrow> get_prop out k | Inl e \<Rightarrow> JUndefined)"

section \<open>Sample inputs\<close>

text \<open>
  A runtime for concrete runs: its decoder knows the base64 encodings of seven JSON
  texts (\<^verbatim>\<open>{"location":""}\<close>, an event with coordinates, a report, an event whose
  location has no coordinates, \<^verbatim>\<open>null\<close>, an event with latitude 100, and a report
  with status \<^verbatim>\<open>raw_ingested\<close>) and rejects everything else; its
  \<^verbatim>\<open>GeoPoint\<close> accepts latitudes in \<open>[-90, 90]\<close> and longitudes in \<open>[-180, 180]\<close>;
  its store and queue accept every call.
\<close>

definition sample_payloads :: "(string \<times> jsval) list" where
  "sample_payloads =
     [(''eyJsb2NhdGlvbiI6IiJ9'', JObj [(''location'', JStr [])]),
      (''eyJsb2NhdGlvbiI6eyJsYXRpdHVkZSI6NDAsImxvbmdpdHVkZSI6LTczfSwic3RhdHVzIjoicHJvY2Vzc2VkIn0='',
         JObj [(''location'', JObj [(''latitude'', JNum 40), (''longitude'', JNum (- 73))]),
               (''status'', JStr ''processed'')]),
      (''eyJkZXNjcmlwdGlvbiI6IkZsb29kIG9uIDV0aCBBdmUiLCJyZXBvcnRlZEJ5IjoidXNlcjEifQ=='',
         JObj [(''description'', JStr ''Flood on 5th Ave''), (''reportedBy'', JStr ''user1'')]),
      (''eyJsb2NhdGlvbiI6eyJmb28iOjF9fQ=='', JObj [(''location'', JObj [(''foo'', JNum 1)])]),
      (''bnVsbA=='', JNull),
      (''eyJsb2NhdGlvbiI6eyJsYXRpdHVkZSI6MTAwLCJsb25naXR1ZGUiOjB9fQ=='',
         JObj [(''location'', JObj [(''latitude'', JNum 100), (''longitude'', JNum 0)])]),
      (''eyJkZXNjcmlwdGlvbiI6IkZsb29kIG9uIDV0aCBBdmUiLCJyZXBvcnRlZEJ5IjoidXNlcjEiLCJzdGF0dXMiOiJyYXdfaW5nZXN0ZWQifQ=='',
         JObj [(''description'', JStr ''Flood on 5th Ave''), (''reportedBy'', JStr ''user1''),
               (''status'', JStr ''raw_ingested'')])]"

definition sample_decode :: "jsval \<Rightarrow> jsval option" where
  "sample_decode d = (case d of JStr s \<Rightarrow> map_of sample_payloads s | _ \<Rightarrow> None)"

definition sample_runtime :: runtime where
  "sample_runtime =
     \<lparr>decode = sample_decode,
      geoPoint_valid = (\<lambda>la lo. - 90 \<le> la \<and> la \<le> 90 \<and> - 180 \<le> lo \<and> lo \<le> 180),
      firestore_add = (\<lambda>c doc. Inr ''doc-1''),
      pubsub_publish = (\<lambda>t payload. Inr ''msg-1''),
      now = ''2025-01-01T00:00:00.000Z''\<rparr>"

text \<open>The same runtime with a queue that rejects every publish.\<close>

definition failing_queue_runtime :: runtime where
  "failing_queue_runtime =
     sample_runtime\<lparr>pubsub_publish := (\<lambda>t payload. Inl ''DEADLINE_EXCEEDED'')\<rparr>"

definition sample_report :: jsval where
  "sample_report =
     JObj [(''description'', JStr ''Flood on 5th Ave''),
           (''location'', JObj [(''latitude'', JNum (407 / 10)), (''longitude'', JNum (- 74))]),
           (''reportedBy'', JStr ''user1'')]"

text \<open>The body of a push request whose \<^verbatim>\<open>message.data\<close> is the string \<open>d\<close>.\<close>

definition push_envelope :: "string \<Rightarrow> jsval" where
  "push_envelope d = JObj [(''message'', JObj [(''data'', JStr d)])]"

section \<open>Auxiliary facts\<close>

lemma truthy_prop_obj: "truthy (get_prop body k) \<Longrightarrow> \<exists>kvs. body = JObj kvs"
  by (cases body) auto

lemma falsy_iff:
  "(\<not> truthy v) = (v = JUndefined \<or> v = JNull \<or> v = JBool False \<or> v = JNum 0 \<or> v = JStr [])"
  by (cases v) auto

lemma envelope_obj:
  "truthy (get_prop (get_prop body ''message'') ''data'') \<Longrightarrow>
     truthy body \<and> truthy (get_prop body ''message'')"
  by (cases body; cases "get_prop body ''message''") auto

lemma map_of_object_literal:
  "map_of (object_literal base props) = map_of base ++ map_of (rev props)"
  unfolding object_literal_def
proof (induction props arbitrary: base)
  case Nil
  show ?case by simp
next
  case (Cons f fs)
  obtain k v where f: "f = (k, v)" by (cases f)
  show ?case unfolding f
    apply (simp add: Cons.IH update_conv')
    apply (rule ext)
    apply (auto simp: map_add_def split: option.splits)
    done
qed

lemma six_fields_frame:
  assumes "k \<notin> {k1, k2, k3, k4, k5, k6}"
  shows "map_of (object_literal base [(k1, v1), (k2, v2), (k3, v3), (k4, v4), (k5, v5), (k6, v6)]) k
         = map_of base k"
  using assms by (simp add: object_literal_def update_conv')

lemma substring_prefix: "substring s 0 (min (length s) 100) = take 100 s"
  by (simp add: substring_def Let_def min_def)

lemma process_incident_shape:
  assumes "process_incident d = Inr p"
  shows "\<exists>sm. summary_of d = Inr sm \<and> \<not> nullish d \<and> p = JObj (object_literal (spread d)
                 [(''status'', JStr ''processed''),
                  (''processedTimestamp'', ServerTimestamp),
                  (''eventType'', js_or (get_prop d ''type'') (JStr ''general_incident'')),
                  (''summary'', sm),
                  (''predictedImpact'',
                     js_or (get_prop d ''predictedImpact'') default_predictedImpact),
                  (''agentResponsible'', JStr ''User Report Processing (Cloud Run Placeholder)'')])"
  using assms unfolding process_incident_def
  by (cases "summary_of d") (simp_all split: if_splits)

lemma process_incident_summary:
  assumes "get_prop d ''description'' = JStr s"
  shows "output_field (process_incident d) ''summary'' =
          (if s = [] then JStr ''Incident reported.''
           else JStr (''Incident: '' @ take 100 s @ ''...''))"
proof -
  from assms obtain kvs where d: "d = JObj kvs" by (cases d) auto
  have nn: "\<not> nullish d" by (simp add: d)
  have sm: "summary_of d = Inr (if s = [] then JStr ''Incident reported.''
                 else JStr (''Incident: '' @ take 100 s @ ''...''))"
    using assms by (simp add: summary_of_def Let_def substring_prefix)
  show ?thesis
    unfolding process_incident_def output_field_def using nn sm
    by (simp add: map_of_object_literal map_add_def)
qed

lemmas sample_defs = sample_runtime_def sample_report_def sample_decode_def sample_payloads_def
  push_envelope_def failing_queue_runtime_def

section \<open>Ingestor: validation, success and partial failure\<close>

text \<open>
  Claim C2. A request body with truthy \<^verbatim>\<open>description\<close>, \<^verbatim>\<open>location\<close> and
  \<^verbatim>\<open>reportedBy\<close>. The report is the body with \<^verbatim>\<open>ingestedAt\<close> set to the server
  timestamp and \<^verbatim>\<open>status\<close> set to \<^verbatim>\<open>raw_ingested\<close>, every other field as
  received. When the store accepts that report and the queue accepts the payload,
  which is the report with \<^verbatim>\<open>firestoreDocId\<close> set to the identifier the store
  returned for it, the handler makes exactly two calls, the add of the report to
  \<^verbatim>\<open>rawReports\<close> and then the publish of the payload to
  \<^verbatim>\<open>raw-user-reports\<close>, and responds 200 with the message identifier the queue
  returned, that store identifier and the received timestamp. It responds 200 in no
  other case.
\<close>

theorem ingest_success:
  assumes d: "truthy (get_prop body ''description'')"
      and l: "truthy (get_prop body ''location'')"
      and r: "truthy (get_prop body ''reportedBy'')"
      and report: "report = set_prop (set_prop body ''ingestedAt'' ServerTimestamp)
                              ''status'' (JStr ''raw_ingested'')"
  shows "(\<forall>docId payload messageId.
            firestore_add rt ''rawReports'' report = Inr docId
          \<and> payload = JObj (AList.update ''firestoreDocId'' (JStr docId) (spread report))
          \<and> pubsub_publish rt ''raw-user-reports'' payload = Inr messageId \<longrightarrow>
            ingest rt body =
              (Responded 200 (JObj
                 [(''message'', JStr ''Incident received, stored, and queued for processing.''),
                  (''messageId'', JStr messageId),
                  (''firestoreDocId'', JStr docId),
                  (''receivedTimestamp'', JStr (now rt))]),
               [FirestoreAdd ''rawReports'' report (firestore_add rt ''rawReports'' report),
                PubSubPublish ''raw-user-reports'' payload
                  (pubsub_publish rt ''raw-user-reports'' payload)])
          \<and> written (snd (ingest rt body)) = [(''rawReports'', docId, report)]
          \<and> queued (snd (ingest rt body)) = [(''raw-user-reports'', messageId, payload)]
          \<and> get_prop payload ''firestoreDocId'' = JStr docId
          \<and> (\<forall>k. k \<noteq> ''firestoreDocId'' \<longrightarrow>
                 map_of (spread payload) k = map_of (spread report) k))
       \<and> get_prop report ''status'' = JStr ''raw_ingested''
       \<and> get_prop report ''ingestedAt'' = ServerTimestamp
       \<and> (\<forall>k. k \<noteq> ''status'' \<and> k \<noteq> ''ingestedAt'' \<longrightarrow>
              map_of (spread report) k = map_of (spread body) k)
       \<and> (\<forall>b. fst (ingest rt body) = Responded 200 b \<longrightarrow>
              (\<exists>docId messageId.
                 firestore_add rt ''rawReports'' report = Inr docId
               \<and> pubsub_publish rt ''raw-user-reports''
                    (JObj (AList.update ''firestoreDocId'' (JStr docId) (spread report)))
                  = Inr messageId))"
proof -
  from d obtain kvs where body: "body = JObj kvs" using truthy_prop_obj by blast
  have rep: "report = JObj (AList.update ''status'' (JStr ''raw_ingested'')
                             (AList.update ''ingestedAt'' ServerTimestamp kvs))"
    unfolding report body by simp
  have run: "ingest rt body =
           (Responded 200 (JObj
              [(''message'', JStr ''Incident received, stored, and queued for processing.''),
               (''messageId'', JStr messageId),
               (''firestoreDocId'', JStr docId),
               (''receivedTimestamp'', JStr (now rt))]),
            [FirestoreAdd ''rawReports'' report (Inr docId),
             PubSubPublish ''raw-user-reports'' payload (Inr messageId)])"
    if "firestore_add rt ''rawReports'' report = Inr docId"
       "payload = JObj (AList.update ''firestoreDocId'' (JStr docId) (spread report))"
       "pubsub_publish rt ''raw-user-reports'' payload = Inr messageId"
    for docId payload messageId
    using d l r that unfolding rep body ingest_def Let_def TOPIC_NAME_def object_literal_def
    by simp
  have pprops: "get_prop payload ''firestoreDocId'' = JStr docId
     \<and> (\<forall>k. k \<noteq> ''firestoreDocId'' \<longrightarrow>
                map_of (spread payload) k = map_of (spread report) k)"
    if "payload = JObj (AList.update ''firestoreDocId'' (JStr docId) (spread report))"
    for docId payload
    unfolding that by (simp add: update_conv')
  have part1: "\<forall>docId payload messageId.
            firestore_add rt ''rawReports'' report = Inr docId
          \<and> payload = JObj (AList.update ''firestoreDocId'' (JStr docId) (spread report))
          \<and> pubsub_publish rt ''raw-user-reports'' payload = Inr messageId \<longrightarrow>
            ingest rt body =
              (Responded 200 (JObj
                 [(''message'', JStr ''Incident received, stored, and queued for processing.''),
                  (''messageId'', JStr messageId),
                  (''firestoreDocId'', JStr docId),
                  (''receivedTimestamp'', JStr (now rt))]),
               [FirestoreAdd ''rawReports'' report (firestore_add rt ''rawReports'' report),
                PubSubPublish ''raw-user-reports'' payload
                  (pubsub_publish rt ''raw-user-reports'' payload)])
          \<and> written (snd (ingest rt body)) = [(''rawReports'', docId, report)]
          \<and> queued (snd (ingest rt body)) = [(''raw-user-reports'', messageId, payload)]
          \<and> get_prop payload ''firestoreDocId'' = JStr docId
          \<and> (\<forall>k. k \<noteq> ''firestoreDocId'' \<longrightarrow>
                 map_of (spread payload) k = map_of (spread report) k)"
  proof (intro allI impI)
    fix docId payload messageId
    assume a: "firestore_add rt ''rawReports'' report = Inr docId
          \<and> payload = JObj (AList.update ''firestoreDocId'' (JStr docId) (spread report))
          \<and> pubsub_publish rt ''raw-user-reports'' payload = Inr messageId"
    then have r: "ingest rt body =
           (Responded 200 (JObj
              [(''message'', JStr ''Incident received, stored, and queued for processing.''),
               (''messageId'', JStr messageId),
               (''firestoreDocId'', JStr docId),
               (''receivedTimestamp'', JStr (now rt))]),
            [FirestoreAdd ''rawReports'' report (Inr docId),
             PubSubPublish ''raw-user-reports'' payload (Inr messageId)])"
      using run by blast
    from a have p: "get_prop payload ''firestoreDocId'' = JStr docId
     \<and> (\<forall>k. k \<noteq> ''firestoreDocId'' \<longrightarrow>
                map_of (spread payload) k = map_of (spread report) k)"
      using pprops by blast
    show "ingest rt body =
              (Responded 200 (JObj
                 [(''message'', JStr ''Incident received, stored, and queued for processing.''),
                  (''messageId'', JStr messageId),
                  (''firestoreDocId'', JStr docId),
                  (''receivedTimestamp'', JStr (now rt))]),
               [FirestoreAdd ''rawReports'' report (firestore_add rt ''rawReports'' report),
                PubSubPublish ''raw-user-reports'' payload
                  (pubsub_publish rt ''raw-user-reports'' payload)])
          \<and> written (snd (ingest rt body)) = [(''rawReports'', docId, report)]
          \<and> queued (snd (ingest rt body)) = [(''raw-user-reports'', messageId, payload)]
          \<and> get_prop payload ''firestoreDocId'' = JStr docId
          \<and> (\<forall>k. k \<noteq> ''firestoreDocId'' \<longrightarrow>
                 map_of (spread payload) k = map_of (spread report) k)"
      unfolding r using a [THEN conjunct1] a [THEN conjunct2, THEN conjunct2] p by simp
  qed
  have props: "get_prop report ''status'' = JStr ''raw_ingested''
       \<and> get_prop report ''ingestedAt'' = ServerTimestamp
       \<and> (\<forall>k. k \<noteq> ''status'' \<and> k \<noteq> ''ingestedAt'' \<longrightarrow>
              map_of (spread report) k = map_of (spread body) k)"
    unfolding rep body by (simp add: update_conv')
  have only: "\<forall>b. fst (ingest rt body) = Responded 200 b \<longrightarrow>
              (\<exists>docId messageId.
                 firestore_add rt ''rawReports'' report = Inr docId
               \<and> pubsub_publish rt ''raw-user-reports''
                    (JObj (AList.update ''firestoreDocId'' (JStr docId) (spread report)))
                  = Inr messageId)"
    using d l r unfolding rep body ingest_def Let_def TOPIC_NAME_def object_literal_def
    by (auto split: sum.splits)
  from part1 props only show ?thesis by simp
qed

text \<open>
  Claim C2, witness: the sample report with the sample runtime, whose store returns
  \<^verbatim>\<open>doc-1\<close> and whose queue returns \<^verbatim>\<open>msg-1\<close>.
\<close>

theorem ingest_success_witness:
  "ingest sample_runtime sample_report =
     (Responded 200 (JObj
        [(''message'', JStr ''Incident received, stored, and queued for processing.''),
         (''messageId'', JStr ''msg-1''),
         (''firestoreDocId'', JStr ''doc-1''),
         (''receivedTimestamp'', JStr ''2025-01-01T00:00:00.000Z'')]),
      [FirestoreAdd ''rawReports''
         (JObj [(''description'', JStr ''Flood on 5th Ave''),
                (''location'', JObj [(''latitude'', JNum (407 / 10)), (''longitude'', JNum (- 74))]),
                (''reportedBy'', JStr ''user1''),
                (''ingestedAt'', ServerTimestamp),
                (''status'', JStr ''raw_ingested'')])
         (Inr ''doc-1''),
       PubSubPublish ''raw-user-reports''
         (JObj [(''description'', JStr ''Flood on 5th Ave''),
                (''location'', JObj [(''latitude'', JNum (407 / 10)), (''longitude'', JNum (- 74))]),
                (''reportedBy'', JStr ''user1''),
                (''ingestedAt'', ServerTimestamp),
                (''status'', JStr ''raw_ingested''),
                (''firestoreDocId'', JStr ''doc-1'')])
         (Inr ''msg-1'')])"
proof -
  let ?report = "set_prop (set_prop sample_report ''ingestedAt'' ServerTimestamp)
                   ''status'' (JStr ''raw_ingested'')"
  let ?payload = "JObj (AList.update ''firestoreDocId'' (JStr ''doc-1'') (spread ?report))"
  have h: "truthy (get_prop sample_report ''description'')"
          "truthy (get_prop sample_report ''location'')"
          "truthy (get_prop sample_report ''reportedBy'')"
    by (simp_all add: sample_report_def)
  have ok: "firestore_add sample_runtime ''rawReports'' ?report = Inr ''doc-1''
          \<and> ?payload = JObj (AList.update ''firestoreDocId'' (JStr ''doc-1'') (spread ?report))
          \<and> pubsub_publish sample_runtime ''raw-user-reports'' ?payload = Inr ''msg-1''"
    by (simp add: sample_runtime_def)
  note w = ingest_success [OF h refl, THEN conjunct1, rule_format, OF ok, THEN conjunct1]
  show ?thesis
    unfolding w by (simp add: sample_runtime_def sample_report_def)
qed

text \<open>
  Claim C3. A request body that is absent, or in which \<^verbatim>\<open>description\<close>,
  \<^verbatim>\<open>location\<close> or \<^verbatim>\<open>reportedBy\<close> is missing, is answered with 400 and an error
  object, and the handler calls neither the store nor the queue.
\<close>

theorem ingest_missing_field:
  assumes "body = JUndefined \<or> get_prop body ''description'' = JUndefined
           \<or> get_prop body ''location'' = JUndefined \<or> get_prop body ''reportedBy'' = JUndefined"
  shows "ingest rt body =
           (Responded 400 (JObj [(''error'',
              JStr ''Bad Request: Missing required incident data (description, location, or reportedBy).'')]),
            [])"
  using assms unfolding ingest_def Let_def by auto

text \<open>Claim C3, witness: a report without \<^verbatim>\<open>location\<close>, and an absent body.\<close>

theorem ingest_missing_field_witness:
  "ingest sample_runtime
     (JObj [(''description'', JStr ''Flood on 5th Ave''), (''reportedBy'', JStr ''user1'')]) =
           (Responded 400 (JObj [(''error'',
              JStr ''Bad Request: Missing required incident data (description, location, or reportedBy).'')]),
            [])
   \<and> ingest sample_runtime JUndefined =
           (Responded 400 (JObj [(''error'',
              JStr ''Bad Request: Missing required incident data (description, location, or reportedBy).'')]),
            [])"
  using ingest_missing_field
          [of "JObj [(''description'', JStr ''Flood on 5th Ave''), (''reportedBy'', JStr ''user1'')]"
              sample_runtime]
        ingest_missing_field [of JUndefined sample_runtime]
  by simp

text \<open>
  Claim C6. When the write to the store succeeded and the publish that followed
  failed, the response is 500 carrying the error's message, and the handler made no
  further call: the record stays written and no message is queued.
\<close>

theorem ingest_publish_failure:
  assumes d: "truthy (get_prop body ''description'')"
      and l: "truthy (get_prop body ''location'')"
      and r: "truthy (get_prop body ''reportedBy'')"
      and add: "FirestoreAdd c report (Inr docId) \<in> set (snd (ingest rt body))"
      and pub: "PubSubPublish t payload (Inl message) \<in> set (snd (ingest rt body))"
  shows "fst (ingest rt body) =
           Responded 500 (JObj [(''error'',
             JStr (''Internal Server Error: Failed to ingest incident. Details: '' @ message))])
       \<and> snd (ingest rt body) =
           [FirestoreAdd ''rawReports'' report (Inr docId),
            PubSubPublish ''raw-user-reports'' payload (Inl message)]
       \<and> written (snd (ingest rt body)) = [(''rawReports'', docId, report)]
       \<and> queued (snd (ingest rt body)) = []"
proof -
  from d obtain kvs where body: "body = JObj kvs" using truthy_prop_obj by blast
  show ?thesis
    using d l r add pub unfolding body ingest_def Let_def TOPIC_NAME_def
    by (auto split: sum.splits)
qed

text \<open>Claim C6, witness: the sample report with the runtime whose queue rejects.\<close>

theorem ingest_publish_failure_witness:
  "fst (ingest failing_queue_runtime sample_report) =
           Responded 500 (JObj [(''error'',
             JStr ''Internal Server Error: Failed to ingest incident. Details: DEADLINE_EXCEEDED'')])
   \<and> written (snd (ingest failing_queue_runtime sample_report)) =
        [(''rawReports'', ''doc-1'',
          JObj [(''description'', JStr ''Flood on 5th Ave''),
                (''location'', JObj [(''latitude'', JNum (407 / 10)), (''longitude'', JNum (- 74))]),
                (''reportedBy'', JStr ''user1''),
                (''ingestedAt'', ServerTimestamp),
                (''status'', JStr ''raw_ingested'')])]
   \<and> queued (snd (ingest failing_queue_runtime sample_report)) = []"
proof -
  have h: "truthy (get_prop sample_report ''description'')"
          "truthy (get_prop sample_report ''location'')"
          "truthy (get_prop sample_report ''reportedBy'')"
    by (simp_all add: sample_report_def)
  have calls: "snd (ingest failing_queue_runtime sample_report) =
     [FirestoreAdd ''rawReports''
        (JObj [(''description'', JStr ''Flood on 5th Ave''),
                (''location'', JObj [(''latitude'', JNum (407 / 10)), (''longitude'', JNum (- 74))]),
                (''reportedBy'', JStr ''user1''),
                (''ingestedAt'', ServerTimestamp),
                (''status'', JStr ''raw_ingested'')]) (Inr ''doc-1''),
      PubSubPublish ''raw-user-reports''
        (JObj [(''description'', JStr ''Flood on 5th Ave''),
                (''location'', JObj [(''latitude'', JNum (407 / 10)), (''longitude'', JNum (- 74))]),
                (''reportedBy'', JStr ''user1''),
                (''ingestedAt'', ServerTimestamp),
                (''status'', JStr ''raw_ingested''),
                (''firestoreDocId'', JStr ''doc-1'')]) (Inl ''DEADLINE_EXCEEDED'')]"
    by (simp add: ingest_def failing_queue_runtime_def sample_runtime_def sample_report_def Let_def
          TOPIC_NAME_def object_literal_def)
  have a: "FirestoreAdd ''rawReports''
        (JObj [(''description'', JStr ''Flood on 5th Ave''),
                (''location'', JObj [(''latitude'', JNum (407 / 10)), (''longitude'', JNum (- 74))]),
                (''reportedBy'', JStr ''user1''),
                (''ingestedAt'', ServerTimestamp),
                (''status'', JStr ''raw_ingested'')]) (Inr ''doc-1'')
        \<in> set (snd (ingest failing_queue_runtime sample_report))"
    unfolding calls by simp
  have p: "PubSubPublish ''raw-user-reports''
        (JObj [(''description'', JStr ''Flood on 5th Ave''),
                (''location'', JObj [(''latitude'', JNum (407 / 10)), (''longitude'', JNum (- 74))]),
                (''reportedBy'', JStr ''user1''),
                (''ingestedAt'', ServerTimestamp),
                (''status'', JStr ''raw_ingested''),
                (''firestoreDocId'', JStr ''doc-1'')]) (Inl ''DEADLINE_EXCEEDED'')
        \<in> set (snd (ingest failing_queue_runtime sample_report))"
    unfolding calls by simp
  from ingest_publish_failure [OF h a p] show ?thesis by simp
qed

text \<open>
  Claim C10. The required-field check tests truthiness: the request is answered with
  the 400 of a missing field, and nothing is called, exactly when \<^verbatim>\<open>description\<close>,
  \<^verbatim>\<open>location\<close> or \<^verbatim>\<open>reportedBy\<close> is not truthy; the values that are not truthy are
  \<^verbatim>\<open>undefined\<close> (a missing field), \<^verbatim>\<open>null\<close>, \<^verbatim>\<open>false\<close>, \<^verbatim>\<open>0\<close> and the empty
  string; an empty object is truthy.
\<close>

theorem ingest_truthiness:
  "((ingest rt body =
       (Responded 400 (JObj [(''error'',
          JStr ''Bad Request: Missing required incident data (description, location, or reportedBy).'')]),
        []))
     = (\<not> (truthy (get_prop body ''description'') \<and> truthy (get_prop body ''location'')
            \<and> truthy (get_prop body ''reportedBy''))))
   \<and> ((\<not> truthy v) =
        (v = JUndefined \<or> v = JNull \<or> v = JBool False \<or> v = JNum 0 \<or> v = JStr []))
   \<and> truthy (JObj [])"
proof -
  have "truthy body" if "truthy (get_prop body ''description'')"
    using that truthy_prop_obj by fastforce
  then have 1: "(ingest rt body =
       (Responded 400 (JObj [(''error'',
          JStr ''Bad Request: Missing required incident data (description, location, or reportedBy).'')]),
        []))
     = (\<not> (truthy (get_prop body ''description'') \<and> truthy (get_prop body ''location'')
            \<and> truthy (get_prop body ''reportedBy'')))"
    unfolding ingest_def Let_def by (auto split: sum.splits)
  show ?thesis using 1 falsy_iff[of v] by simp
qed

text \<open>
  Claim C10, witness: an empty \<^verbatim>\<open>description\<close> is rejected like a missing one, and
  a report whose \<^verbatim>\<open>location\<close> is an empty object is not rejected.
\<close>

theorem ingest_truthiness_witness:
  "ingest sample_runtime
     (JObj [(''description'', JStr []), (''location'', JObj []), (''reportedBy'', JStr ''user1'')]) =
       (Responded 400 (JObj [(''error'',
          JStr ''Bad Request: Missing required incident data (description, location, or reportedBy).'')]),
        [])
   \<and> ingest sample_runtime
     (JObj [(''description'', JStr ''Flood''), (''location'', JObj []), (''reportedBy'', JStr ''user1'')]) \<noteq>
       (Responded 400 (JObj [(''error'',
          JStr ''Bad Request: Missing required incident data (description, location, or reportedBy).'')]),
        [])"
  using ingest_truthiness
          [of sample_runtime
              "JObj [(''description'', JStr []), (''location'', JObj []), (''reportedBy'', JStr ''user1'')]"
              JNull]
        ingest_truthiness
          [of sample_runtime
              "JObj [(''description'', JStr ''Flood''), (''location'', JObj []), (''reportedBy'', JStr ''user1'')]"
              JNull]
  by simp

section \<open>Push envelopes that cannot be decoded\<close>

text \<open>
  Claim C4. A push request whose body has no truthy \<^verbatim>\<open>message.data\<close> (in
  particular one that lacks the field), or whose \<^verbatim>\<open>message.data\<close> does not decode,
  is answered with 400 by the Processor and by the Writer, and neither of them calls
  the queue or the store.
\<close>

theorem malformed_push_rejected:
  assumes "\<not> truthy (get_prop (get_prop body ''message'') ''data'')
           \<or> decode rt (get_prop (get_prop body ''message'') ''data'') = None"
  shows "(\<exists>text. processor rt body = (Responded 400 (JStr text), []))
       \<and> (\<exists>text. writer rt body = (Responded 400 (JStr text), []))"
  using assms unfolding processor_def writer_def by auto

text \<open>
  Claim C4, witness: an envelope without \<^verbatim>\<open>data\<close>, and an envelope whose data is
  the base64 encoding of the text \<^verbatim>\<open>not json\<close>.
\<close>

theorem malformed_push_rejected_witness:
  "processor sample_runtime (JObj [(''message'', JObj [])]) =
     (Responded 400 (JStr ''Bad Request: Invalid Pub/Sub message format.''), [])
   \<and> writer sample_runtime (JObj [(''message'', JObj [])]) =
     (Responded 400 (JStr ''Bad Request: Invalid Pub/Sub message format.''), [])
   \<and> decode sample_runtime (JStr ''bm90IGpzb24='') = None
   \<and> processor sample_runtime (push_envelope ''bm90IGpzb24='') =
     (Responded 400 (JStr ''Bad Request: Could not decode or parse message data.''), [])
   \<and> writer sample_runtime (push_envelope ''bm90IGpzb24='') =
     (Responded 400 (JStr ''Bad Request: Could not decode or parse message data.''), [])"
  using malformed_push_rejected [of "JObj [(''message'', JObj [])]" sample_runtime]
        malformed_push_rejected [of "push_envelope ''bm90IGpzb24=''" sample_runtime]
  by (simp add: processor_def writer_def sample_defs)

section \<open>Processor: the derived record\<close>

text \<open>
  Claim C1, as stated, fails: for the description \<^verbatim>\<open>Flood on 5th Ave\<close> the summary
  is \<^verbatim>\<open>Incident: Flood on 5th Ave...\<close> and not the description followed by the
  ellipsis, and for a description of 101 characters the summary has 113 characters.
\<close>

theorem summary_counterexample:
  "output_field (process_incident (JObj [(''description'', JStr ''Flood on 5th Ave'')])) ''summary''
     \<noteq> JStr (''Flood on 5th Ave'' @ ''...'')
   \<and> output_field (process_incident (JObj [(''description'', JStr (replicate 101 CHR ''a''))]))
        ''summary''
     = JStr (''Incident: '' @ replicate 100 CHR ''a'' @ ''...'')
   \<and> \<not> length (''Incident: '' @ replicate 100 CHR ''a'' @ ''...'') \<le> 103"
  using process_incident_summary
          [of "JObj [(''description'', JStr (replicate 101 CHR ''a''))]" "replicate 101 CHR ''a''"]
        process_incident_summary
          [of "JObj [(''description'', JStr ''Flood on 5th Ave'')]" "''Flood on 5th Ave''"]
  by simp

text \<open>
  Claim C1, amended. For an input whose \<^verbatim>\<open>description\<close> is a string \<open>s\<close>: when
  \<open>s\<close> has more than 100 characters the summary is \<^verbatim>\<open>Incident: \<close>, the first 100
  characters of \<open>s\<close> and \<^verbatim>\<open>...\<close>, 113 characters in all; when \<open>s\<close> is not empty
  and has at most 100 characters the summary is \<^verbatim>\<open>Incident: \<close>, \<open>s\<close> and
  \<^verbatim>\<open>...\<close>; when \<open>s\<close> is empty the summary is \<^verbatim>\<open>Incident reported.\<close>
\<close>

theorem summary_of_description:
  assumes "get_prop d ''description'' = JStr s"
  shows "(100 < length s \<longrightarrow>
            output_field (process_incident d) ''summary''
              = JStr (''Incident: '' @ take 100 s @ ''...'')
          \<and> length (''Incident: '' @ take 100 s @ ''...'') = 113)
       \<and> (s \<noteq> [] \<and> length s \<le> 100 \<longrightarrow>
            output_field (process_incident d) ''summary'' = JStr (''Incident: '' @ s @ ''...''))
       \<and> (s = [] \<longrightarrow>
            output_field (process_incident d) ''summary'' = JStr ''Incident reported.'')"
  using process_incident_summary [OF assms] by auto

text \<open>
  Claim C1, witness: a description of 101 characters, a short one and the empty one.
\<close>

theorem summary_of_description_witness:
  "output_field (process_incident (JObj [(''description'', JStr (replicate 101 CHR ''a''))]))
        ''summary''
     = JStr (''Incident: '' @ replicate 100 CHR ''a'' @ ''...'')
   \<and> output_field (process_incident (JObj [(''description'', JStr ''Flood on 5th Ave'')])) ''summary''
     = JStr ''Incident: Flood on 5th Ave...''
   \<and> output_field (process_incident (JObj [(''description'', JStr [])])) ''summary''
     = JStr ''Incident reported.''"
  using summary_of_description
          [of "JObj [(''description'', JStr (replicate 101 CHR ''a''))]" "replicate 101 CHR ''a''"]
        summary_of_description
          [of "JObj [(''description'', JStr ''Flood on 5th Ave'')]" "''Flood on 5th Ave''"]
        summary_of_description [of "JObj [(''description'', JStr [])]" "[]"]
  by simp

text \<open>
  Claim C7. Every record the Processor publishes goes to \<^verbatim>\<open>processed-events\<close> and
  agrees with the decoded input on every field name other than \<^verbatim>\<open>status\<close>,
  \<^verbatim>\<open>processedTimestamp\<close>, \<^verbatim>\<open>eventType\<close>, \<^verbatim>\<open>summary\<close>,
  \<^verbatim>\<open>predictedImpact\<close> and \<^verbatim>\<open>agentResponsible\<close>: what the input has, the record
  has with the same value, and what the input lacks, the record lacks. Each of the six
  is set, whatever the input held under that name: \<^verbatim>\<open>status\<close> to
  \<^verbatim>\<open>processed\<close>, \<^verbatim>\<open>processedTimestamp\<close> to the server timestamp,
  \<^verbatim>\<open>eventType\<close> to the input's truthy \<^verbatim>\<open>type\<close> or \<^verbatim>\<open>general_incident\<close>,
  \<^verbatim>\<open>summary\<close> to the text derived from the description, \<^verbatim>\<open>predictedImpact\<close>
  to the input's truthy \<^verbatim>\<open>predictedImpact\<close> or the placeholder, and
  \<^verbatim>\<open>agentResponsible\<close> to the constant label. A record is published, in one call
  to the queue, for every decoded input other than \<^verbatim>\<open>null\<close> whose
  \<^verbatim>\<open>description\<close> is a string or not truthy.
\<close>

theorem processor_frame:
  assumes data: "truthy (get_prop (get_prop body ''message'') ''data'')"
      and dec: "decode rt (get_prop (get_prop body ''message'') ''data'') = Some d"
  shows "(\<forall>t payload res. PubSubPublish t payload res \<in> set (snd (processor rt body)) \<longrightarrow>
            t = ''processed-events''
          \<and> res = pubsub_publish rt ''processed-events'' payload
          \<and> (\<forall>k. k \<notin> {''status'', ''processedTimestamp'', ''eventType'', ''summary'',
                        ''predictedImpact'', ''agentResponsible''} \<longrightarrow>
                 map_of (spread payload) k = map_of (spread d) k)
          \<and> map_of (spread payload) ''status'' = Some (JStr ''processed'')
          \<and> map_of (spread payload) ''processedTimestamp'' = Some ServerTimestamp
          \<and> map_of (spread payload) ''eventType'' =
                Some (if truthy (get_prop d ''type'') then get_prop d ''type''
                      else JStr ''general_incident'')
          \<and> map_of (spread payload) ''summary'' =
                Some (case get_prop d ''description'' of
                        JStr s \<Rightarrow> if s = [] then JStr ''Incident reported.''
                                  else JStr (''Incident: '' @ take 100 s @ ''...'')
                      | _ \<Rightarrow> JStr ''Incident reported.'')
          \<and> map_of (spread payload) ''predictedImpact'' =
                Some (if truthy (get_prop d ''predictedImpact'')
                      then get_prop d ''predictedImpact''
                      else JObj [(''duration'', JStr ''unknown''),
                                 (''affectedCommuters'', JNum 0),
                                 (''spreadDirection'', JStr ''N/A'')])
          \<and> map_of (spread payload) ''agentResponsible'' =
                Some (JStr ''User Report Processing (Cloud Run Placeholder)''))
       \<and> (\<not> nullish d \<and> (\<not> truthy (get_prop d ''description'')
                              \<or> (\<exists>s. get_prop d ''description'' = JStr s)) \<longrightarrow>
            (\<exists>payload. snd (processor rt body) =
               [PubSubPublish ''processed-events'' payload
                  (pubsub_publish rt ''processed-events'' payload)]))"
proof -
  note env = envelope_obj[OF data]
  have run: "snd (processor rt body) =
      (case process_incident d of Inl e \<Rightarrow> []
       | Inr p \<Rightarrow> [PubSubPublish ''processed-events'' p (pubsub_publish rt ''processed-events'' p)])"
    using env data dec unfolding processor_def PROCESSED_EVENTS_TOPIC_def Let_def
    by (simp split: sum.splits)
  have shape: "\<exists>sm. summary_of d = Inr sm \<and> spread p = object_literal (spread d)
                 [(''status'', JStr ''processed''),
                  (''processedTimestamp'', ServerTimestamp),
                  (''eventType'', js_or (get_prop d ''type'') (JStr ''general_incident'')),
                  (''summary'', sm),
                  (''predictedImpact'',
                     js_or (get_prop d ''predictedImpact'') default_predictedImpact),
                  (''agentResponsible'', JStr ''User Report Processing (Cloud Run Placeholder)'')]"
    if "process_incident d = Inr p" for p
    using process_incident_shape[OF that] by force
  have frame: "map_of (spread p) k = map_of (spread d) k"
    if "process_incident d = Inr p"
       "k \<notin> {''status'', ''processedTimestamp'', ''eventType'', ''summary'',
              ''predictedImpact'', ''agentResponsible''}" for p k
  proof -
    from shape[OF that(1)] obtain sm where
      p: "spread p = object_literal (spread d)
                 [(''status'', JStr ''processed''),
                  (''processedTimestamp'', ServerTimestamp),
                  (''eventType'', js_or (get_prop d ''type'') (JStr ''general_incident'')),
                  (''summary'', sm),
                  (''predictedImpact'',
                     js_or (get_prop d ''predictedImpact'') default_predictedImpact),
                  (''agentResponsible'', JStr ''User Report Processing (Cloud Run Placeholder)'')]"
      by blast
    show ?thesis unfolding p by (rule six_fields_frame[OF that(2)])
  qed
  have six: "map_of (spread p) ''status'' = Some (JStr ''processed'')"
            "map_of (spread p) ''processedTimestamp'' = Some ServerTimestamp"
            "map_of (spread p) ''eventType'' =
                Some (if truthy (get_prop d ''type'') then get_prop d ''type''
                      else JStr ''general_incident'')"
            "map_of (spread p) ''summary'' =
                Some (case get_prop d ''description'' of
                        JStr s \<Rightarrow> if s = [] then JStr ''Incident reported.''
                                  else JStr (''Incident: '' @ take 100 s @ ''...'')
                      | _ \<Rightarrow> JStr ''Incident reported.'')"
            "map_of (spread p) ''predictedImpact'' =
                Some (if truthy (get_prop d ''predictedImpact'')
                      then get_prop d ''predictedImpact''
                      else JObj [(''duration'', JStr ''unknown''),
                                 (''affectedCommuters'', JNum 0),
                                 (''spreadDirection'', JStr ''N/A'')])"
            "map_of (spread p) ''agentResponsible'' =
                Some (JStr ''User Report Processing (Cloud Run Placeholder)'')"
    if "process_incident d = Inr p" for p
  proof -
    from shape[OF that] obtain sm where
      sm: "summary_of d = Inr sm" and
      p: "spread p = object_literal (spread d)
                 [(''status'', JStr ''processed''),
                  (''processedTimestamp'', ServerTimestamp),
                  (''eventType'', js_or (get_prop d ''type'') (JStr ''general_incident'')),
                  (''summary'', sm),
                  (''predictedImpact'',
                     js_or (get_prop d ''predictedImpact'') default_predictedImpact),
                  (''agentResponsible'', JStr ''User Report Processing (Cloud Run Placeholder)'')]"
      by blast
    from sm have smv: "sm = (case get_prop d ''description'' of
                        JStr s \<Rightarrow> if s = [] then JStr ''Incident reported.''
                                  else JStr (''Incident: '' @ take 100 s @ ''...'')
                      | _ \<Rightarrow> JStr ''Incident reported.'')"
      unfolding summary_of_def Let_def
      by (cases "get_prop d ''description''") (auto simp: substring_prefix split: if_splits)
    show "map_of (spread p) ''status'' = Some (JStr ''processed'')"
         "map_of (spread p) ''processedTimestamp'' = Some ServerTimestamp"
         "map_of (spread p) ''eventType'' =
                Some (if truthy (get_prop d ''type'') then get_prop d ''type''
                      else JStr ''general_incident'')"
         "map_of (spread p) ''summary'' =
                Some (case get_prop d ''description'' of
                        JStr s \<Rightarrow> if s = [] then JStr ''Incident reported.''
                                  else JStr (''Incident: '' @ take 100 s @ ''...'')
                      | _ \<Rightarrow> JStr ''Incident reported.'')"
         "map_of (spread p) ''predictedImpact'' =
                Some (if truthy (get_prop d ''predictedImpact'')
                      then get_prop d ''predictedImpact''
                      else JObj [(''duration'', JStr ''unknown''),
                                 (''affectedCommuters'', JNum 0),
                                 (''spreadDirection'', JStr ''N/A'')])"
         "map_of (spread p) ''agentResponsible'' =
                Some (JStr ''User Report Processing (Cloud Run Placeholder)'')"
      unfolding p smv [symmetric]
      by (simp_all add: map_of_object_literal map_add_def js_or_def default_predictedImpact_def)
  qed
  have total: "\<exists>p. process_incident d = Inr p"
    if "\<not> nullish d"
       "\<not> truthy (get_prop d ''description'') \<or> (\<exists>s. get_prop d ''description'' = JStr s)"
  proof -
    from that(2) have "\<exists>sm. summary_of d = Inr sm"
      unfolding summary_of_def Let_def by auto
    then show ?thesis using that(1) unfolding process_incident_def by auto
  qed
  have published: "t = ''processed-events'' \<and> process_incident d = Inr payload
                   \<and> res = pubsub_publish rt ''processed-events'' payload"
    if "PubSubPublish t payload res \<in> set (snd (processor rt body))" for t payload res
    using that unfolding run by (cases "process_incident d") auto
  have part1: "\<forall>t payload res. PubSubPublish t payload res \<in> set (snd (processor rt body)) \<longrightarrow>
            t = ''processed-events''
          \<and> res = pubsub_publish rt ''processed-events'' payload
          \<and> (\<forall>k. k \<notin> {''status'', ''processedTimestamp'', ''eventType'', ''summary'',
                        ''predictedImpact'', ''agentResponsible''} \<longrightarrow>
                 map_of (spread payload) k = map_of (spread d) k)
          \<and> map_of (spread payload) ''status'' = Some (JStr ''processed'')
          \<and> map_of (spread payload) ''processedTimestamp'' = Some ServerTimestamp
          \<and> map_of (spread payload) ''eventType'' =
                Some (if truthy (get_prop d ''type'') then get_prop d ''type''
                      else JStr ''general_incident'')
          \<and> map_of (spread payload) ''summary'' =
                Some (case get_prop d ''description'' of
                        JStr s \<Rightarrow> if s = [] then JStr ''Incident reported.''
                                  else JStr (''Incident: '' @ take 100 s @ ''...'')
                      | _ \<Rightarrow> JStr ''Incident reported.'')
          \<and> map_of (spread payload) ''predictedImpact'' =
                Some (if truthy (get_prop d ''predictedImpact'')
                      then get_prop d ''predictedImpact''
                      else JObj [(''duration'', JStr ''unknown''),
                                 (''affectedCommuters'', JNum 0),
                                 (''spreadDirection'', JStr ''N/A'')])
          \<and> map_of (spread payload) ''agentResponsible'' =
                Some (JStr ''User Report Processing (Cloud Run Placeholder)'')"
  proof (intro allI impI)
    fix t payload res
    assume "PubSubPublish t payload res \<in> set (snd (processor rt body))"
    from published [OF this] have
      t: "t = ''processed-events''" and pi: "process_incident d = Inr payload"
      and res: "res = pubsub_publish rt ''processed-events'' payload"
      by simp_all
    have fr: "\<forall>k. k \<notin> {''status'', ''processedTimestamp'', ''eventType'', ''summary'',
                        ''predictedImpact'', ''agentResponsible''} \<longrightarrow>
                 map_of (spread payload) k = map_of (spread d) k"
      using frame [OF pi] by (intro allI impI)
    show "t = ''processed-events''
          \<and> res = pubsub_publish rt ''processed-events'' payload
          \<and> (\<forall>k. k \<notin> {''status'', ''processedTimestamp'', ''eventType'', ''summary'',
                        ''predictedImpact'', ''agentResponsible''} \<longrightarrow>
                 map_of (spread payload) k = map_of (spread d) k)
          \<and> map_of (spread payload) ''status'' = Some (JStr ''processed'')
          \<and> map_of (spread payload) ''processedTimestamp'' = Some ServerTimestamp
          \<and> map_of (spread payload) ''eventType'' =
                Some (if truthy (get_prop d ''type'') then get_prop d ''type''
                      else JStr ''general_incident'')
          \<and> map_of (spread payload) ''summary'' =
                Some (case get_prop d ''description'' of
                        JStr s \<Rightarrow> if s = [] then JStr ''Incident reported.''
                                  else JStr (''Incident: '' @ take 100 s @ ''...'')
                      | _ \<Rightarrow> JStr ''Incident reported.'')
          \<and> map_of (spread payload) ''predictedImpact'' =
                Some (if truthy (get_prop d ''predictedImpact'')
                      then get_prop d ''predictedImpact''
                      else JObj [(''duration'', JStr ''unknown''),
                                 (''affectedCommuters'', JNum 0),
                                 (''spreadDirection'', JStr ''N/A'')])
          \<and> map_of (spread payload) ''agentResponsible'' =
                Some (JStr ''User Report Processing (Cloud Run Placeholder)'')"
      by (intro conjI) (rule t res fr six [OF pi])+
  qed
  have part2: "\<not> nullish d \<and> (\<not> truthy (get_prop d ''description'')
                              \<or> (\<exists>s. get_prop d ''description'' = JStr s)) \<longrightarrow>
            (\<exists>payload. snd (processor rt body) =
               [PubSubPublish ''processed-events'' payload
                  (pubsub_publish rt ''processed-events'' payload)])"
  proof
    assume "\<not> nullish d \<and> (\<not> truthy (get_prop d ''description'')
                              \<or> (\<exists>s. get_prop d ''description'' = JStr s))"
    then obtain p where "process_incident d = Inr p" using total by blast
    then show "\<exists>payload. snd (processor rt body) =
               [PubSubPublish ''processed-events'' payload
                  (pubsub_publish rt ''processed-events'' payload)]"
      unfolding run by simp
  qed
  from part1 part2 show ?thesis by (rule conjI)
qed

text \<open>
  Claim C7, witness: the push request carrying
  \<^verbatim>\<open>{"description":"Flood on 5th Ave","reportedBy":"user1","status":"raw_ingested"}\<close>.
  One record is published; it keeps \<^verbatim>\<open>description\<close> and \<^verbatim>\<open>reportedBy\<close>, has
  no \<^verbatim>\<open>location\<close>, as the input has none, has \<^verbatim>\<open>status\<close> overwritten with
  \<^verbatim>\<open>processed\<close>, and has the five other derived fields added.
\<close>

theorem processor_frame_witness:
  "(\<exists>payload.
      snd (processor sample_runtime
             (push_envelope
                ''eyJkZXNjcmlwdGlvbiI6IkZsb29kIG9uIDV0aCBBdmUiLCJyZXBvcnRlZEJ5IjoidXNlcjEiLCJzdGF0dXMiOiJyYXdfaW5nZXN0ZWQifQ==''))
        = [PubSubPublish ''processed-events'' payload (Inr ''msg-1'')]
    \<and> map_of (spread payload) ''description'' = Some (JStr ''Flood on 5th Ave'')
    \<and> map_of (spread payload) ''reportedBy'' = Some (JStr ''user1'')
    \<and> map_of (spread payload) ''location'' = None
    \<and> map_of (spread payload) ''status'' = Some (JStr ''processed'')
    \<and> map_of (spread payload) ''processedTimestamp'' = Some ServerTimestamp
    \<and> map_of (spread payload) ''eventType'' = Some (JStr ''general_incident'')
    \<and> map_of (spread payload) ''summary'' = Some (JStr ''Incident: Flood on 5th Ave...'')
    \<and> map_of (spread payload) ''predictedImpact'' =
         Some (JObj [(''duration'', JStr ''unknown''), (''affectedCommuters'', JNum 0),
                     (''spreadDirection'', JStr ''N/A'')])
    \<and> map_of (spread payload) ''agentResponsible'' =
         Some (JStr ''User Report Processing (Cloud Run Placeholder)''))"
proof -
  let ?body = "push_envelope
      ''eyJkZXNjcmlwdGlvbiI6IkZsb29kIG9uIDV0aCBBdmUiLCJyZXBvcnRlZEJ5IjoidXNlcjEiLCJzdGF0dXMiOiJyYXdfaW5nZXN0ZWQifQ==''"
  let ?d = "JObj [(''description'', JStr ''Flood on 5th Ave''), (''reportedBy'', JStr ''user1''),
                  (''status'', JStr ''raw_ingested'')]"
  have data: "truthy (get_prop (get_prop ?body ''message'') ''data'')"
    by (simp add: push_envelope_def)
  have dec: "decode sample_runtime (get_prop (get_prop ?body ''message'') ''data'') = Some ?d"
    by (simp add: sample_defs)
  note fr = processor_frame [OF data dec]
  have ok: "\<not> nullish ?d \<and> (\<not> truthy (get_prop ?d ''description'')
                              \<or> (\<exists>s. get_prop ?d ''description'' = JStr s))"
    by simp
  from fr [THEN conjunct2, rule_format, OF ok] obtain payload where
    run: "snd (processor sample_runtime ?body) =
            [PubSubPublish ''processed-events'' payload (Inr ''msg-1'')]"
    by (auto simp: sample_runtime_def)
  then have mem: "PubSubPublish ''processed-events'' payload (Inr ''msg-1'')
                    \<in> set (snd (processor sample_runtime ?body))"
    by simp
  note inst = fr [THEN conjunct1, rule_format, OF mem, THEN conjunct2, THEN conjunct2]
  note frame = inst [THEN conjunct1, rule_format]
  note six = inst [THEN conjunct2, THEN conjunct1]
    inst [THEN conjunct2, THEN conjunct2, THEN conjunct1]
    inst [THEN conjunct2, THEN conjunct2, THEN conjunct2, THEN conjunct1]
    inst [THEN conjunct2, THEN conjunct2, THEN conjunct2, THEN conjunct2, THEN conjunct1]
    inst [THEN conjunct2, THEN conjunct2, THEN conjunct2, THEN conjunct2, THEN conjunct2,
          THEN conjunct1]
    inst [THEN conjunct2, THEN conjunct2, THEN conjunct2, THEN conjunct2, THEN conjunct2,
          THEN conjunct2]
  have kept: "map_of (spread payload) ''description'' = Some (JStr ''Flood on 5th Ave'')"
       "map_of (spread payload) ''reportedBy'' = Some (JStr ''user1'')"
       "map_of (spread payload) ''location'' = None"
    using frame [of "''description''"] frame [of "''reportedBy''"] frame [of "''location''"]
    by simp_all
  have derived:
    "map_of (spread payload) ''status'' = Some (JStr ''processed'')"
    "map_of (spread payload) ''processedTimestamp'' = Some ServerTimestamp"
    "map_of (spread payload) ''eventType'' = Some (JStr ''general_incident'')"
    "map_of (spread payload) ''summary'' = Some (JStr ''Incident: Flood on 5th Ave...'')"
    "map_of (spread payload) ''predictedImpact'' =
         Some (JObj [(''duration'', JStr ''unknown''), (''affectedCommuters'', JNum 0),
                     (''spreadDirection'', JStr ''N/A'')])"
    "map_of (spread payload) ''agentResponsible'' =
         Some (JStr ''User Report Processing (Cloud Run Placeholder)'')"
    using six by simp_all
  from run kept derived show ?thesis by (intro exI conjI)
qed

text \<open>
  Claim C8, as stated, fails: for the input \<^verbatim>\<open>{"type":"","predictedImpact":null}\<close>
  both fields are present, yet \<^verbatim>\<open>eventType\<close> is \<^verbatim>\<open>general_incident\<close> and
  \<^verbatim>\<open>predictedImpact\<close> is the placeholder.
\<close>

theorem derived_defaults_counterexample:
  "map_of (spread (JObj [(''type'', JStr []), (''predictedImpact'', JNull)])) ''type''
     = Some (JStr [])
   \<and> output_field (process_incident (JObj [(''type'', JStr []), (''predictedImpact'', JNull)]))
        ''eventType''
     \<noteq> JStr []
   \<and> map_of (spread (JObj [(''type'', JStr []), (''predictedImpact'', JNull)])) ''predictedImpact''
     = Some JNull
   \<and> output_field (process_incident (JObj [(''type'', JStr []), (''predictedImpact'', JNull)]))
        ''predictedImpact''
     \<noteq> JNull"
  by (simp add: process_incident_def summary_of_def output_field_def js_or_def
        default_predictedImpact_def object_literal_def)

text \<open>
  Claim C8, amended. In the record derived from an input, \<^verbatim>\<open>eventType\<close> is the
  input's \<^verbatim>\<open>type\<close> when that is truthy and \<^verbatim>\<open>general_incident\<close> otherwise (when
  it is absent, \<^verbatim>\<open>null\<close>, \<^verbatim>\<open>false\<close>, \<^verbatim>\<open>0\<close> or the empty string);
  \<^verbatim>\<open>predictedImpact\<close> is the input's \<^verbatim>\<open>predictedImpact\<close> when that is truthy and
  otherwise the placeholder with \<^verbatim>\<open>duration\<close> \<^verbatim>\<open>unknown\<close>,
  \<^verbatim>\<open>affectedCommuters\<close> 0 and \<^verbatim>\<open>spreadDirection\<close> \<^verbatim>\<open>N/A\<close>.
\<close>

theorem derived_defaults:
  assumes "process_incident d = Inr out"
  shows "get_prop out ''eventType'' =
           (if truthy (get_prop d ''type'') then get_prop d ''type''
            else JStr ''general_incident'')
       \<and> get_prop out ''predictedImpact'' =
           (if truthy (get_prop d ''predictedImpact'') then get_prop d ''predictedImpact''
            else JObj [(''duration'', JStr ''unknown''), (''affectedCommuters'', JNum 0),
                       (''spreadDirection'', JStr ''N/A'')])"
proof -
  from process_incident_shape [OF assms] obtain sm where
    out: "out = JObj (object_literal (spread d)
                 [(''status'', JStr ''processed''),
                  (''processedTimestamp'', ServerTimestamp),
                  (''eventType'', js_or (get_prop d ''type'') (JStr ''general_incident'')),
                  (''summary'', sm),
                  (''predictedImpact'',
                     js_or (get_prop d ''predictedImpact'') default_predictedImpact),
                  (''agentResponsible'', JStr ''User Report Processing (Cloud Run Placeholder)'')])"
    by blast
  show ?thesis
    unfolding out
    by (simp add: map_of_object_literal map_add_def js_or_def default_predictedImpact_def)
qed

text \<open>
  Claim C8, witness: an input with a type and no predicted impact, and an input with a
  predicted impact and no type.
\<close>

theorem derived_defaults_witness:
  "output_field (process_incident (JObj [(''type'', JStr ''flood'')])) ''eventType''
     = JStr ''flood''
   \<and> output_field (process_incident (JObj [(''type'', JStr ''flood'')])) ''predictedImpact''
     = JObj [(''duration'', JStr ''unknown''), (''affectedCommuters'', JNum 0),
             (''spreadDirection'', JStr ''N/A'')]
   \<and> output_field
        (process_incident (JObj [(''predictedImpact'', JObj [(''duration'', JStr ''2h'')])]))
        ''eventType''
     = JStr ''general_incident''
   \<and> output_field
        (process_incident (JObj [(''predictedImpact'', JObj [(''duration'', JStr ''2h'')])]))
        ''predictedImpact''
     = JObj [(''duration'', JStr ''2h'')]"
proof -
  have "\<exists>out. process_incident (JObj [(''type'', JStr ''flood'')]) = Inr out"
    by (simp add: process_incident_def summary_of_def)
  then obtain o1 where r1: "process_incident (JObj [(''type'', JStr ''flood'')]) = Inr o1" ..
  have "\<exists>out. process_incident (JObj [(''predictedImpact'', JObj [(''duration'', JStr ''2h'')])])
                  = Inr out"
    by (simp add: process_incident_def summary_of_def)
  then obtain o2 where
    r2: "process_incident (JObj [(''predictedImpact'', JObj [(''duration'', JStr ''2h'')])]) = Inr o2" ..
  from derived_defaults [OF r1] derived_defaults [OF r2] show ?thesis
    unfolding output_field_def r1 r2 by simp
qed

section \<open>Writer: the stored location\<close>

text \<open>
  Claim C5, as stated, fails. For the event \<^verbatim>\<open>{"location":""}\<close> the location is
  present and has no numeric coordinates, yet the stored location is \<^verbatim>\<open>null\<close> and
  not the original value. For the decoded input \<^verbatim>\<open>null\<close> the handler raises
  before the write and calls nothing.
\<close>

theorem writer_location_counterexample:
  "decode sample_runtime (JStr ''eyJsb2NhdGlvbiI6IiJ9'') = Some (JObj [(''location'', JStr [])])
   \<and> writer sample_runtime (push_envelope ''eyJsb2NhdGlvbiI6IiJ9'') =
       (Responded 200 (JStr ''Event written to Firestore.''),
        [FirestoreAdd ''events''
           (JObj [(''location'', JNull), (''firestoreCreatedAt'', ServerTimestamp)])
           (Inr ''doc-1'')])
   \<and> JNull \<noteq> JStr []
   \<and> decode sample_runtime (JStr ''bnVsbA=='') = Some JNull
   \<and> writer sample_runtime (push_envelope ''bnVsbA=='') =
       (Unhandled (TypeError ''Cannot destructure null or undefined''), [])"
  by (simp add: writer_def sample_defs firestore_location_def object_literal_def js_or_def
        Let_def AList.delete_eq)

text \<open>
  Claim C5, amended. For a decoded input other than \<^verbatim>\<open>null\<close>: when its
  \<^verbatim>\<open>location\<close> has a numeric \<^verbatim>\<open>latitude\<close> and a numeric \<^verbatim>\<open>longitude\<close> that
  the \<^verbatim>\<open>GeoPoint\<close> constructor accepts, the handler makes one write to
  \<^verbatim>\<open>events\<close> of a document whose \<^verbatim>\<open>location\<close> is the point with that latitude
  and that longitude; when the latitude or the longitude is not a number, the handler
  makes one write of a document whose \<^verbatim>\<open>location\<close> is the original value when
  that is truthy, and \<^verbatim>\<open>null\<close> when it is absent or not truthy.
\<close>

theorem writer_location:
  assumes data: "truthy (get_prop (get_prop body ''message'') ''data'')"
      and dec: "decode rt (get_prop (get_prop body ''message'') ''data'') = Some d"
      and nn: "\<not> nullish d"
      and loc: "loc = get_prop d ''location''"
  shows "(get_prop loc ''latitude'' = JNum la \<and> get_prop loc ''longitude'' = JNum lo
          \<and> geoPoint_valid rt la lo \<longrightarrow>
            (\<exists>doc. snd (writer rt body) =
                      [FirestoreAdd ''events'' doc (firestore_add rt ''events'' doc)]
                  \<and> get_prop doc ''location'' = GeoPoint la lo))
       \<and> (\<not> (is_number (get_prop loc ''latitude'') \<and> is_number (get_prop loc ''longitude'')) \<longrightarrow>
            (\<exists>doc. snd (writer rt body) =
                      [FirestoreAdd ''events'' doc (firestore_add rt ''events'' doc)]
                  \<and> get_prop doc ''location'' = (if truthy loc then loc else JNull)))"
proof -
  note env = envelope_obj[OF data]
  have run: "snd (writer rt body) =
      (case firestore_location rt loc of Inl e \<Rightarrow> []
       | Inr fl \<Rightarrow>
          [FirestoreAdd ''events''
             (JObj (object_literal (AList.delete ''location'' (spread d))
                     [(''location'', js_or fl (js_or loc JNull)),
                      (''firestoreCreatedAt'', ServerTimestamp)]))
             (firestore_add rt ''events''
               (JObj (object_literal (AList.delete ''location'' (spread d))
                     [(''location'', js_or fl (js_or loc JNull)),
                      (''firestoreCreatedAt'', ServerTimestamp)])))])"
    using env data dec nn loc unfolding writer_def Let_def
    by (auto split: sum.splits)
  have a: "firestore_location rt loc = Inr (GeoPoint la lo)"
    if "get_prop loc ''latitude'' = JNum la" "get_prop loc ''longitude'' = JNum lo"
       "geoPoint_valid rt la lo"
  proof -
    from that(1) have "truthy loc" by (cases loc) auto
    then show ?thesis using that by (simp add: firestore_location_def new_GeoPoint_def)
  qed
  have b: "firestore_location rt loc = Inr JNull"
    if "\<not> (is_number (get_prop loc ''latitude'') \<and> is_number (get_prop loc ''longitude''))"
    using that by (auto simp add: firestore_location_def)
  show ?thesis
    unfolding run using a b
    by (auto simp: map_of_object_literal map_add_def js_or_def)
qed

text \<open>
  Claim C5, witness: the event with latitude 40 and longitude -73, and the event whose
  location is \<^verbatim>\<open>{"foo":1}\<close>.
\<close>

theorem writer_location_witness:
  "(\<exists>doc. snd (writer sample_runtime
                 (push_envelope
                    ''eyJsb2NhdGlvbiI6eyJsYXRpdHVkZSI6NDAsImxvbmdpdHVkZSI6LTczfSwic3RhdHVzIjoicHJvY2Vzc2VkIn0=''))
            = [FirestoreAdd ''events'' doc (Inr ''doc-1'')]
          \<and> get_prop doc ''location'' = GeoPoint 40 (- 73))
   \<and> (\<exists>doc. snd (writer sample_runtime (push_envelope ''eyJsb2NhdGlvbiI6eyJmb28iOjF9fQ==''))
            = [FirestoreAdd ''events'' doc (Inr ''doc-1'')]
          \<and> get_prop doc ''location'' = JObj [(''foo'', JNum 1)])"
proof -
  let ?b1 = "push_envelope
      ''eyJsb2NhdGlvbiI6eyJsYXRpdHVkZSI6NDAsImxvbmdpdHVkZSI6LTczfSwic3RhdHVzIjoicHJvY2Vzc2VkIn0=''"
  let ?d1 = "JObj [(''location'', JObj [(''latitude'', JNum 40), (''longitude'', JNum (- 73))]),
                   (''status'', JStr ''processed'')]"
  let ?b2 = "push_envelope ''eyJsb2NhdGlvbiI6eyJmb28iOjF9fQ==''"
  let ?d2 = "JObj [(''location'', JObj [(''foo'', JNum 1)])]"
  have data1: "truthy (get_prop (get_prop ?b1 ''message'') ''data'')"
    by (simp add: push_envelope_def)
  have dec1: "decode sample_runtime (get_prop (get_prop ?b1 ''message'') ''data'') = Some ?d1"
    by (simp add: sample_defs)
  have data2: "truthy (get_prop (get_prop ?b2 ''message'') ''data'')"
    by (simp add: push_envelope_def)
  have dec2: "decode sample_runtime (get_prop (get_prop ?b2 ''message'') ''data'') = Some ?d2"
    by (simp add: sample_defs)
  have nn: "\<not> nullish ?d1" "\<not> nullish ?d2" by simp_all
  note w1 = writer_location [OF data1 dec1 nn(1) refl, of 40 "- 73", THEN conjunct1]
  note w2 = writer_location [OF data2 dec2 nn(2) refl, of 0 0, THEN conjunct2]
  have valid: "geoPoint_valid sample_runtime 40 (- 73)" by (simp add: sample_runtime_def)
  have add: "firestore_add sample_runtime c doc = Inr ''doc-1''" for c doc
    by (simp add: sample_runtime_def)
  from w1 valid have p1: "\<exists>doc. snd (writer sample_runtime ?b1)
            = [FirestoreAdd ''events'' doc (Inr ''doc-1'')]
          \<and> get_prop doc ''location'' = GeoPoint 40 (- 73)"
    unfolding add by simp
  from w2 have p2: "\<exists>doc. snd (writer sample_runtime ?b2)
            = [FirestoreAdd ''events'' doc (Inr ''doc-1'')]
          \<and> get_prop doc ''location'' = JObj [(''foo'', JNum 1)]"
    unfolding add by simp
  from p1 p2 show ?thesis by (rule conjI)
qed

text \<open>
  The conversion itself is outside every \<^verbatim>\<open>try\<close>: when the constructor rejects
  the coordinates, the handler raises before the write and sends no response. With a
  constructor that checks the ranges, latitude 100 is such an input.
\<close>

lemma writer_rejected_coordinates:
  assumes data: "truthy (get_prop (get_prop body ''message'') ''data'')"
      and dec: "decode rt (get_prop (get_prop body ''message'') ''data'') = Some d"
      and nn: "\<not> nullish d"
      and la: "get_prop (get_prop d ''location'') ''latitude'' = JNum la"
      and lo: "get_prop (get_prop d ''location'') ''longitude'' = JNum lo"
      and rejected: "\<not> geoPoint_valid rt la lo"
  shows "\<exists>e. writer rt body = (Unhandled e, [])"
proof -
  note env = envelope_obj[OF data]
  from la have "truthy (get_prop d ''location'')"
    by (cases "get_prop d ''location''") auto
  then have "\<exists>e. firestore_location rt (get_prop d ''location'') = Inl e"
    using la lo rejected by (simp add: firestore_location_def new_GeoPoint_def)
  then show ?thesis
    using env data dec nn unfolding writer_def Let_def by auto
qed

lemma writer_latitude_100:
  "writer sample_runtime
     (push_envelope ''eyJsb2NhdGlvbiI6eyJsYXRpdHVkZSI6MTAwLCJsb25naXR1ZGUiOjB9fQ=='') =
   (Unhandled (Error ''Value for argument is not a valid coordinate''), [])"
  by (simp add: writer_def sample_defs firestore_location_def new_GeoPoint_def Let_def)

section \<open>Listening port\<close>

text \<open>
  Claim C9, as stated, fails: with \<^verbatim>\<open>PORT\<close> set to the empty string the three
  services listen on 8080 and not on the value of the variable.
\<close>

theorem listen_port_counterexample:
  "ingestor_port (Map.empty(''PORT'' \<mapsto> [])) \<noteq> JStr []
   \<and> processor_port (Map.empty(''PORT'' \<mapsto> [])) \<noteq> JStr []
   \<and> writer_port (Map.empty(''PORT'' \<mapsto> [])) \<noteq> JStr []
   \<and> ingestor_port (Map.empty(''PORT'' \<mapsto> [])) = JNum 8080"
  by (simp add: ingestor_port_def processor_port_def writer_port_def env_read_def js_or_def)

text \<open>
  Claim C9, amended. Each of the three services listens on the value of \<^verbatim>\<open>PORT\<close>
  when the variable is set to a non-empty string, and on 8080 when it is unset or
  empty.
\<close>

theorem listen_port:
  "(penv ''PORT'' = Some s \<and> s \<noteq> [] \<longrightarrow>
      ingestor_port penv = JStr s \<and> processor_port penv = JStr s \<and> writer_port penv = JStr s)
   \<and> (penv ''PORT'' = None \<or> penv ''PORT'' = Some [] \<longrightarrow>
      ingestor_port penv = JNum 8080 \<and> processor_port penv = JNum 8080
      \<and> writer_port penv = JNum 8080)"
  by (auto simp: ingestor_port_def processor_port_def writer_port_def env_read_def js_or_def)

text \<open>Claim C9, witness: \<^verbatim>\<open>PORT=3000\<close>, and an environment without \<^verbatim>\<open>PORT\<close>.\<close>

theorem listen_port_witness:
  "ingestor_port (Map.empty(''PORT'' \<mapsto> ''3000'')) = JStr ''3000''
   \<and> processor_port (Map.empty(''PORT'' \<mapsto> ''3000'')) = JStr ''3000''
   \<and> writer_port (Map.empty(''PORT'' \<mapsto> ''3000'')) = JStr ''3000''
   \<and> ingestor_port Map.empty = JNum 8080
   \<and> processor_port Map.empty = JNum 8080
   \<and> writer_port Map.empty = JNum 8080"
  using listen_port [of "Map.empty(''PORT'' \<mapsto> ''3000'')" "''3000''"]
        listen_port [of Map.empty "[]"]
  by simp

end
